theory Spec2Isabelle
  imports Complex_Main "HOL-Library.Sublist" "HOL-Library.Multiset"
begin

section \<open>Data model\<close>

text \<open>
  The job aggregation pipeline of \<^verbatim>\<open>supabase/functions/scrape-jobs/index.ts\<close> and the
  conditional-fetch logic of \<^verbatim>\<open>supabase/functions/live-jobs-feed/index.ts\<close>.

  Conventions of the embedding:
  \<^item> JavaScript strings are \<^typ>\<open>string\<close>: a \<^typ>\<open>char\<close> is a UTF-16 code unit below 256
    (ISO 8859-1, the range that \<^verbatim>\<open>btoa\<close> accepts), and the string functions below are
    those of JavaScript on that range.
  \<^item> An instant is an \<^typ>\<open>int\<close> of milliseconds, as \<^verbatim>\<open>Date.now()\<close> and
    \<^verbatim>\<open>Date.prototype.getTime()\<close> return it. A date string is represented by the value
    \<^verbatim>\<open>new Date(s).getTime()\<close> gives for it: \<open>Some ms\<close>, or \<open>None\<close> for \<^verbatim>\<open>NaN\<close>
    (an unparseable string). Every comparison with \<^verbatim>\<open>NaN\<close> is false.
  \<^item> \<^verbatim>\<open>Date.now()\<close> is an explicit argument \<open>now\<close>.
\<close>

type_synonym date_string = "int option"

text \<open>The interface \<^verbatim>\<open>JobListing\<close>. The field \<^verbatim>\<open>id\<close> is named \<open>job_id\<close>.\<close>

record JobListing =
  job_id :: string
  title :: string
  company :: string
  company_tier :: nat
  location :: string
  salary_range :: "string option"
  url :: string
  posted_delta :: string
  posted_at :: date_string
  snippet :: string
  requirements :: "string list"
  source :: string
  match_score :: int

section \<open>Deduplication by URL\<close>

text \<open>
  \<^verbatim>\<open>const seenUrls = new Set<string>();
  const uniqueJobs = allJobs.filter(job => {
    if (seenUrls.has(job.url)) return false;
    seenUrls.add(job.url);
    return true;
  });\<close>
  The callback mutates \<^verbatim>\<open>seenUrls\<close>; the set is threaded through the traversal.
\<close>

fun dedupFilter :: "string set \<Rightarrow> JobListing list \<Rightarrow> JobListing list" where
  "dedupFilter seenUrls [] = []"
| "dedupFilter seenUrls (job # rest) =
     (if url job \<in> seenUrls then dedupFilter seenUrls rest
      else job # dedupFilter (insert (url job) seenUrls) rest)"

definition uniqueJobs :: "JobListing list \<Rightarrow> JobListing list" where
  "uniqueJobs allJobs = dedupFilter {} allJobs"

section \<open>String helpers\<close>

text \<open>
  \<^verbatim>\<open>String.prototype.toLowerCase\<close>, \<^verbatim>\<open>includes\<close>, \<^verbatim>\<open>Array.prototype.join\<close> and the
  conversion of a number to its decimal string, as a template literal performs it.
  Lower case exists for the letters \<^verbatim>\<open>A\<close> to \<^verbatim>\<open>Z\<close> and for the capitals U+00C0 to U+00DE
  (U+00D7, the multiplication sign, is not a letter).
\<close>

definition lowerChar :: "char \<Rightarrow> char" where
  "lowerChar c =
     (let n = (of_char c :: nat)
      in if (65 \<le> n \<and> n \<le> 90) \<or> (192 \<le> n \<and> n \<le> 222 \<and> n \<noteq> 215) then char_of (n + 32)
         else c)"

definition toLowerCase :: "string \<Rightarrow> string" where
  "toLowerCase s = map lowerChar s"

fun str_includes :: "string \<Rightarrow> string \<Rightarrow> bool" where
  "str_includes [] needle = (needle = [])"
| "str_includes (c # cs) needle = (prefix needle (c # cs) \<or> str_includes cs needle)"

fun join :: "string \<Rightarrow> string list \<Rightarrow> string" where
  "join sep [] = []"
| "join sep [x] = x"
| "join sep (x # y # rest) = x @ sep @ join sep (y # rest)"

fun digitsOfNat :: "nat \<Rightarrow> string" where
  "digitsOfNat n =
     (if n < 10 then [char_of (48 + n)]
      else digitsOfNat (n div 10) @ [char_of (48 + n mod 10)])"

declare digitsOfNat.simps [simp del]

definition numberToString :: "int \<Rightarrow> string" where
  "numberToString i =
     (if i < 0 then CHR ''-'' # digitsOfNat (nat (- i)) else digitsOfNat (nat i))"

section \<open>Relative time\<close>

text \<open>
  \<^verbatim>\<open>function getTimeDelta(dateStr: string): string\<close> of the scraper. \<^verbatim>\<open>Math.floor(a / b)\<close>
  on integral operands is \<open>div\<close> on \<^typ>\<open>int\<close>, which rounds towards minus infinity as
  \<^verbatim>\<open>Math.floor\<close> does. For an unparseable date every intermediate value is \<^verbatim>\<open>NaN\<close>, no
  comparison succeeds and the last template renders \<^verbatim>\<open>NaN\<close>.
\<close>

definition getTimeDelta :: "int \<Rightarrow> date_string \<Rightarrow> string" where
  "getTimeDelta now dateStr =
     (case dateStr of
        None \<Rightarrow> ''NaNw ago''
      | Some posted \<Rightarrow>
          (let diffMs = now - posted;
               minutes = diffMs div 60000
           in if minutes < 60 then numberToString minutes @ '' min ago''
              else let hours = minutes div 60
                   in if hours < 24 then numberToString hours @ ''h ago''
                      else let days = hours div 24
                           in if days < 7 then numberToString days @ ''d ago''
                              else numberToString (days div 7) @ ''w ago''))"

section \<open>Requirement extraction\<close>

definition techKeywords :: "string list" where
  "techKeywords =
     [''Python'', ''Java'', ''TypeScript'', ''JavaScript'', ''React'', ''Node.js'', ''AWS'',
      ''GCP'', ''Azure'', ''Kubernetes'', ''Docker'', ''PostgreSQL'', ''MongoDB'', ''Redis'',
      ''Kafka'', ''GraphQL'', ''Machine Learning'', ''Deep Learning'', ''TensorFlow'',
      ''PyTorch'', ''Go'', ''Rust'', ''C++'', ''SQL'', ''NoSQL'', ''REST API'',
      ''Microservices'', ''CI/CD'', ''Terraform'', ''Linux'', ''Spark'', ''Airflow'', ''dbt'',
      ''Snowflake'', ''BigQuery'', ''Databricks'', ''MLOps'']"

definition extractRequirements :: "string \<Rightarrow> string list" where
  "extractRequirements content =
     (let found = filter (\<lambda>kw. str_includes (toLowerCase content) (toLowerCase kw)) techKeywords
      in take 8 found)"

section \<open>Scoring\<close>

text \<open>
  \<^verbatim>\<open>function calculateScore(job, keywords, locations): number\<close>. The \<^verbatim>\<open>for\<close> loop over the
  keywords carries \<^verbatim>\<open>keywordScore\<close> as an accumulator; \<^verbatim>\<open>kw && ...\<close> skips the empty string.
\<close>

definition jobText :: "JobListing \<Rightarrow> string" where
  "jobText job =
     toLowerCase (title job @ '' '' @ snippet job @ '' '' @ join '' '' (requirements job))"

fun keywordLoop :: "string \<Rightarrow> int \<Rightarrow> string list \<Rightarrow> int" where
  "keywordLoop text keywordScore [] = keywordScore"
| "keywordLoop text keywordScore (kw # rest) =
     (if kw \<noteq> [] \<and> str_includes text (toLowerCase kw)
      then keywordLoop text (keywordScore + 5) rest
      else keywordLoop text keywordScore rest)"

definition tierBonus :: "nat \<Rightarrow> int" where
  "tierBonus t = (if t = 1 then 20 else if t = 2 then 10 else 5)"

definition priorityLocs :: "string list" where
  "priorityLocs = [''dublin'', ''ireland'', ''remote'']"

definition locationBonus :: "string \<Rightarrow> string list \<Rightarrow> int" where
  "locationBonus jobLoc locations =
     (if list_ex (\<lambda>loc. str_includes jobLoc loc) priorityLocs then 15
      else if list_ex (\<lambda>loc. str_includes jobLoc (toLowerCase loc)) locations then 5
      else 0)"

definition recencyBonus :: "int \<Rightarrow> date_string \<Rightarrow> int" where
  "recencyBonus now postedAt =
     (case postedAt of
        None \<Rightarrow> 0
      | Some posted \<Rightarrow>
          (let postedMs = now - posted
           in if postedMs < 3600000 then 10 else if postedMs < 86400000 then 5 else 0))"

definition calculateScore :: "int \<Rightarrow> JobListing \<Rightarrow> string list \<Rightarrow> string list \<Rightarrow> int" where
  "calculateScore now job keywords locations =
     (let score = 50;
          jobLoc = toLowerCase (location job);
          score = score + tierBonus (company_tier job);
          keywordScore = keywordLoop (jobText job) 0 keywords;
          score = score + min 30 keywordScore;
          score = score + locationBonus jobLoc locations;
          score = score + recencyBonus now (posted_at job)
      in min 100 score)"

section \<open>Tier mixing\<close>

subsection \<open>The quotas\<close>

text \<open>
  \<^verbatim>\<open>Math.floor(totalJobs * 0.7)\<close> multiplies two IEEE 754 binary64 numbers. The literal
  \<^verbatim>\<open>0.7\<close> denotes the double \<open>6305039478318694 / 2^53\<close> (bits \<^verbatim>\<open>0x3FE6666666666666\<close>),
  \<^verbatim>\<open>0.2\<close> the double \<open>7205759403792794 / 2^55\<close> (\<^verbatim>\<open>0x3FC999999999999A\<close>) and \<^verbatim>\<open>0.1\<close> the
  double \<open>7205759403792794 / 2^56\<close> (\<^verbatim>\<open>0x3FB999999999999A\<close>). A list length is an integer
  below \<open>2^53\<close> and so a double. The product of the doubles \<open>n\<close> and \<open>m / 2^e\<close> is the
  exact product \<open>n * m / 2^e\<close> rounded to 53 significant bits, to nearest, ties to even;
  scaling by a power of two does not change which bits are kept, so the numerator \<open>n * m\<close>
  is rounded and then divided. \<open>bitLength\<close> is the number of binary digits.
\<close>

function bitLength :: "int \<Rightarrow> nat" where
  "bitLength n = (if n \<le> 0 then 0 else Suc (bitLength (n div 2)))"
  by pat_completeness auto
termination
  by (relation "measure nat") auto

declare bitLength.simps [simp del]

definition roundToDouble :: "int \<Rightarrow> int" where
  "roundToDouble p =
     (let b = bitLength p
      in if b \<le> 53 then p
         else let s = b - 53;
                  q = p div 2 ^ s;
                  r = p mod 2 ^ s;
                  q' = (if 2 ^ s < 2 * r \<or> (2 * r = 2 ^ s \<and> odd q) then q + 1 else q)
              in q' * 2 ^ s)"

definition floorOfProduct :: "int \<Rightarrow> int \<Rightarrow> nat \<Rightarrow> int" where
  "floorOfProduct n m e = roundToDouble (n * m) div 2 ^ e"

definition tier1Count :: "nat \<Rightarrow> nat" where
  "tier1Count totalJobs = nat (floorOfProduct (int totalJobs) 6305039478318694 53)"

definition tier2Count :: "nat \<Rightarrow> nat" where
  "tier2Count totalJobs = nat (floorOfProduct (int totalJobs) 7205759403792794 55)"

definition tier3Count :: "nat \<Rightarrow> nat" where
  "tier3Count totalJobs = nat (floorOfProduct (int totalJobs) 7205759403792794 56)"

text \<open>
  The quota as the specification words it: the floor of the real number \<open>p * N\<close>, for the
  shares \<open>0.7\<close>, \<open>0.2\<close> and \<open>0.1\<close>.
\<close>

definition quotaOfShare :: "real \<Rightarrow> nat \<Rightarrow> nat" where
  "quotaOfShare p N = nat \<lfloor>p * real N\<rfloor>"

subsection \<open>The mixer\<close>

text \<open>
  \<^verbatim>\<open>function mixJobsByTier(jobs: JobListing[]): JobListing[]\<close>.
  \<^verbatim>\<open>Array.prototype.sort\<close> is stable; with the comparator \<^verbatim>\<open>b.match_score - a.match_score\<close>
  it sorts by descending score, which is the stable insertion sort \<^const>\<open>sort_key\<close> on the
  negated score. \<^verbatim>\<open>xs.slice(0, n)\<close> is \<^term>\<open>take n xs\<close>. \<open>mixTiers\<close> is the array
  \<^verbatim>\<open>mixed\<close> after the three \<^verbatim>\<open>push\<close> calls.
\<close>

definition tierJobs :: "nat \<Rightarrow> JobListing list \<Rightarrow> JobListing list" where
  "tierJobs t jobs = filter (\<lambda>j. company_tier j = t) jobs"

definition sortByScore :: "JobListing list \<Rightarrow> JobListing list" where
  "sortByScore js = sort_key (\<lambda>j. - match_score j) js"

definition mixTiers :: "JobListing list \<Rightarrow> JobListing list" where
  "mixTiers jobs =
     (let tier1Jobs = sortByScore (tierJobs 1 jobs);
          tier2Jobs = sortByScore (tierJobs 2 jobs);
          tier3Jobs = sortByScore (tierJobs 3 jobs);
          totalJobs = length jobs
      in take (tier1Count totalJobs) tier1Jobs
         @ take (tier2Count totalJobs) tier2Jobs
         @ take (tier3Count totalJobs) tier3Jobs)"

text \<open>
  The second phase. A listing whose \<^verbatim>\<open>posted_at\<close> does not parse has the time \<^verbatim>\<open>NaN\<close>,
  for which both \<^verbatim>\<open>> recentCutoff\<close> and \<^verbatim>\<open><= recentCutoff\<close> are false. The comparator
  of the second sort only ever sees listings of \<^verbatim>\<open>recentJobs\<close>, whose times are numbers.
\<close>

definition recentJobs :: "int \<Rightarrow> JobListing list \<Rightarrow> JobListing list" where
  "recentJobs recentCutoff mixed =
     filter (\<lambda>j. case posted_at j of None \<Rightarrow> False | Some t \<Rightarrow> recentCutoff < t) mixed"

definition olderJobs :: "int \<Rightarrow> JobListing list \<Rightarrow> JobListing list" where
  "olderJobs recentCutoff mixed =
     filter (\<lambda>j. case posted_at j of None \<Rightarrow> False | Some t \<Rightarrow> t \<le> recentCutoff) mixed"

definition postedTime :: "JobListing \<Rightarrow> int" where
  "postedTime j = (case posted_at j of None \<Rightarrow> 0 | Some t \<Rightarrow> t)"

definition sortByPosted :: "JobListing list \<Rightarrow> JobListing list" where
  "sortByPosted js = sort_key (\<lambda>j. - postedTime j) js"

definition mixJobsByTier :: "int \<Rightarrow> JobListing list \<Rightarrow> JobListing list" where
  "mixJobsByTier now jobs =
     (let mixed = mixTiers jobs;
          recentCutoff = now - 24 * 60 * 60 * 1000
      in sortByPosted (recentJobs recentCutoff mixed) @ olderJobs recentCutoff mixed)"

section \<open>Source clients\<close>

subsection \<open>HTML stripping\<close>

text \<open>
  \<^verbatim>\<open>html.replace(/<[^>]*>/g, ' ').replace(/\s+/g, ' ').trim()\<close>.
  The first pattern matches from a \<^verbatim>\<open><\<close> up to the next \<^verbatim>\<open>>\<close>; a \<^verbatim>\<open><\<close> with no \<^verbatim>\<open>>\<close>
  after it is kept. The second replaces every maximal run of white space by one space.
  White space (\<^verbatim>\<open>\s\<close>, and what \<^verbatim>\<open>trim\<close> removes) is tab, line feed, vertical tab, form
  feed, carriage return, space and the no-break space U+00A0.
\<close>

fun afterTagEnd :: "string \<Rightarrow> string option" where
  "afterTagEnd [] = None"
| "afterTagEnd (c # cs) = (if c = CHR ''>'' then Some cs else afterTagEnd cs)"

function replaceTags :: "string \<Rightarrow> string" where
  "replaceTags [] = []"
| "replaceTags (c # cs) =
     (if c = CHR ''<''
      then (case afterTagEnd cs of
              Some rest \<Rightarrow> CHR '' '' # replaceTags rest
            | None \<Rightarrow> c # replaceTags cs)
      else c # replaceTags cs)"
  by pat_completeness auto
termination
proof (relation "measure length")
  have shorter: "afterTagEnd cs = Some rest \<Longrightarrow> length rest < Suc (length cs)" for cs rest
    by (induction cs) (auto split: if_splits)
  fix c cs rest
  assume "afterTagEnd cs = Some rest"
  then show "(rest, c # cs) \<in> measure length" using shorter [of cs rest] by simp
qed auto

definition isSpace :: "char \<Rightarrow> bool" where
  "isSpace c = (let n = (of_char c :: nat) in n = 32 \<or> (9 \<le> n \<and> n \<le> 13) \<or> n = 160)"

function collapseSpaces :: "string \<Rightarrow> string" where
  "collapseSpaces [] = []"
| "collapseSpaces (c # cs) =
     (if isSpace c then CHR '' '' # collapseSpaces (dropWhile isSpace cs)
      else c # collapseSpaces cs)"
  by pat_completeness auto
termination
  by (relation "measure length") (auto simp: less_Suc_eq_le length_dropWhile_le)

definition trim :: "string \<Rightarrow> string" where
  "trim s = rev (dropWhile isSpace (rev (dropWhile isSpace s)))"

definition stripHtml :: "string \<Rightarrow> string" where
  "stripHtml html = trim (collapseSpaces (replaceTags html))"

subsection \<open>Raw postings and fetch outcomes\<close>

text \<open>
  The fields of a raw posting that the clients read. A text field is \<open>None\<close> when it is
  absent or \<^verbatim>\<open>null\<close>; \<^verbatim>\<open>a || b\<close> and \<^verbatim>\<open>a ? b : c\<close> also treat the empty string as
  absent. A date field is absent (or \<^verbatim>\<open>null\<close>), the empty string, or a non-empty text,
  held as the time it parses to. \<open>gh_id\<close> and \<open>shortcode\<close> are the texts the template
  literals render.
\<close>

datatype date_field = Absent | EmptyText | DateText date_string

record GreenhouseJob =
  gh_id :: string
  gh_title :: "string option"
  gh_location_name :: "string option"
  absolute_url :: "string option"
  updated_at :: date_field
  content :: "string option"

record WorkableJob =
  shortcode :: string
  wk_title :: "string option"
  location_city :: "string option"
  location_country :: "string option"
  published :: date_field
  description :: "string option"

record GreenhouseCompany =
  gh_name :: string
  token :: string
  gh_tier :: nat

record WorkableCompany =
  wk_name :: string
  subdomain :: string
  wk_tier :: nat

text \<open>
  What \<^verbatim>\<open>await fetch(...)\<close> and \<^verbatim>\<open>await response.json()\<close> can do. The clients arm a timer,
  \<^verbatim>\<open>setTimeout(() => controller.abort(), 5000)\<close>, and disarm it with \<^verbatim>\<open>clearTimeout(timeout)\<close>
  as soon as \<^verbatim>\<open>fetch\<close> has resolved, that is, when the response headers are in and before
  the body is read.

  \<open>FetchFailed\<close>: the promise of \<^verbatim>\<open>fetch\<close> rejects (network error, or the abort while the
  headers are awaited). \<open>Response\<close>: the headers arrived, with a status, and the body
  behaves as the payload says; \<^verbatim>\<open>response.ok\<close> holds for the statuses 200 to 299.
  \<open>Unreadable\<close>: reading the body fails, or the body is not JSON or not of a shape the
  mapping can traverse, so that an exception is thrown inside the \<^verbatim>\<open>try\<close> block.
  \<open>Stalled\<close>: the body never completes; the timer is disarmed by then, nothing aborts
  the read, and \<^verbatim>\<open>await response.json()\<close> never resumes. \<open>Data None\<close>: the list field is
  absent, and \<^verbatim>\<open>|| []\<close> applies.

  A computation that never resumes has the result \<open>None\<close>.
\<close>

datatype 'job payload = Unreadable | Stalled | Data "'job list option"

datatype 'job fetch_outcome = FetchFailed | Response nat "'job payload"

datatype error = FetchError | PayloadError

definition responseOk :: "nat \<Rightarrow> bool" where
  "responseOk status = (200 \<le> status \<and> status \<le> 299)"

definition orElse :: "string option \<Rightarrow> string \<Rightarrow> string" where
  "orElse a b = (case a of None \<Rightarrow> b | Some s \<Rightarrow> if s = [] then b else s)"

definition orNow :: "date_field \<Rightarrow> int \<Rightarrow> date_string" where
  "orNow a now = (case a of Absent \<Rightarrow> Some now | EmptyText \<Rightarrow> Some now | DateText d \<Rightarrow> d)"

subsection \<open>The Greenhouse client\<close>

definition greenhouseListing :: "int \<Rightarrow> GreenhouseCompany \<Rightarrow> GreenhouseJob \<Rightarrow> JobListing" where
  "greenhouseListing now src job =
     (let locationName = orElse (gh_location_name job) ''Remote'';
          directUrl = orElse (absolute_url job)
            (''https://boards.greenhouse.io/'' @ token src @ ''/jobs/'' @ gh_id job);
          postedAt = orNow (updated_at job) now
      in \<lparr>job_id = ''gh_'' @ token src @ ''_'' @ gh_id job,
          title = orElse (gh_title job) ''Unknown Position'',
          company = gh_name src,
          company_tier = gh_tier src,
          location = locationName,
          salary_range = None,
          url = directUrl,
          posted_delta = getTimeDelta now postedAt,
          posted_at = postedAt,
          snippet = (if orElse (content job) [] \<noteq> []
                     then take 300 (stripHtml (orElse (content job) [])) else []),
          requirements = extractRequirements (orElse (content job) []),
          source = ''greenhouse'',
          match_score = 0\<rparr>)"

text \<open>
  The body of the \<^verbatim>\<open>try\<close> block, then the function with its \<^verbatim>\<open>catch\<close>. The result of
  the function is \<open>Some\<close> of the list it returns, or \<open>None\<close> when it never returns.
\<close>

definition greenhouseTry ::
  "int \<Rightarrow> GreenhouseCompany \<Rightarrow> GreenhouseJob fetch_outcome
     \<Rightarrow> (error + JobListing list) option" where
  "greenhouseTry now src outcome =
     (case outcome of
        FetchFailed \<Rightarrow> Some (Inl FetchError)
      | Response status body \<Rightarrow>
          if \<not> responseOk status then Some (Inr [])
          else (case body of
                  Unreadable \<Rightarrow> Some (Inl PayloadError)
                | Stalled \<Rightarrow> None
                | Data jobs \<Rightarrow>
                    Some (Inr (map (greenhouseListing now src)
                                 (take 50 (case jobs of None \<Rightarrow> [] | Some js \<Rightarrow> js))))))"

definition fetchGreenhouseJobs ::
  "int \<Rightarrow> GreenhouseCompany \<Rightarrow> GreenhouseJob fetch_outcome \<Rightarrow> JobListing list option" where
  "fetchGreenhouseJobs now src outcome =
     (case greenhouseTry now src outcome of
        None \<Rightarrow> None
      | Some (Inl e) \<Rightarrow> Some []
      | Some (Inr jobs) \<Rightarrow> Some jobs)"

subsection \<open>The Workable client\<close>

definition workableListing :: "int \<Rightarrow> WorkableCompany \<Rightarrow> WorkableJob \<Rightarrow> JobListing" where
  "workableListing now src job =
     (let directUrl = ''https://apply.workable.com/'' @ subdomain src @ ''/j/''
                        @ shortcode job @ ''/'';
          postedAt = orNow (published job) now
      in \<lparr>job_id = ''wk_'' @ subdomain src @ ''_'' @ shortcode job,
          title = orElse (wk_title job) ''Unknown Position'',
          company = wk_name src,
          company_tier = wk_tier src,
          location = orElse (location_city job) (orElse (location_country job) ''Remote''),
          salary_range = None,
          url = directUrl,
          posted_delta = getTimeDelta now postedAt,
          posted_at = postedAt,
          snippet = orElse (description job) [],
          requirements = extractRequirements (orElse (description job) []),
          source = ''workable'',
          match_score = 0\<rparr>)"

definition workableTry ::
  "int \<Rightarrow> WorkableCompany \<Rightarrow> WorkableJob fetch_outcome
     \<Rightarrow> (error + JobListing list) option" where
  "workableTry now src outcome =
     (case outcome of
        FetchFailed \<Rightarrow> Some (Inl FetchError)
      | Response status body \<Rightarrow>
          if \<not> responseOk status then Some (Inr [])
          else (case body of
                  Unreadable \<Rightarrow> Some (Inl PayloadError)
                | Stalled \<Rightarrow> None
                | Data results \<Rightarrow>
                    Some (Inr (map (workableListing now src)
                                 (take 30 (case results of None \<Rightarrow> [] | Some js \<Rightarrow> js))))))"

definition fetchWorkableJobs ::
  "int \<Rightarrow> WorkableCompany \<Rightarrow> WorkableJob fetch_outcome \<Rightarrow> JobListing list option" where
  "fetchWorkableJobs now src outcome =
     (case workableTry now src outcome of
        None \<Rightarrow> None
      | Some (Inl e) \<Rightarrow> Some []
      | Some (Inr jobs) \<Rightarrow> Some jobs)"

section \<open>Aggregation\<close>

text \<open>
  The sources that the handler of the scraper queries: \<^verbatim>\<open>TIER_1_COMPANIES.greenhouse\<close>,
  \<^verbatim>\<open>TIER_2_COMPANIES.greenhouse\<close> and \<^verbatim>\<open>TIER_3_COMPANIES.workable\<close>.
\<close>

definition TIER_1_greenhouse :: "GreenhouseCompany list" where
  "TIER_1_greenhouse =
     [\<lparr>gh_name = ''Stripe'', token = ''stripe'', gh_tier = 1\<rparr>,
      \<lparr>gh_name = ''Airbnb'', token = ''airbnb'', gh_tier = 1\<rparr>,
      \<lparr>gh_name = ''Coinbase'', token = ''coinbase'', gh_tier = 1\<rparr>,
      \<lparr>gh_name = ''Cloudflare'', token = ''cloudflare'', gh_tier = 1\<rparr>,
      \<lparr>gh_name = ''Databricks'', token = ''databricks'', gh_tier = 1\<rparr>,
      \<lparr>gh_name = ''Snowflake'', token = ''snowflakecomputing'', gh_tier = 1\<rparr>,
      \<lparr>gh_name = ''OpenAI'', token = ''openai'', gh_tier = 1\<rparr>,
      \<lparr>gh_name = ''Anthropic'', token = ''anthropic'', gh_tier = 1\<rparr>,
      \<lparr>gh_name = ''Scale AI'', token = ''scaleai'', gh_tier = 1\<rparr>,
      \<lparr>gh_name = ''Palantir'', token = ''palantir'', gh_tier = 1\<rparr>,
      \<lparr>gh_name = ''Figma'', token = ''figma'', gh_tier = 1\<rparr>,
      \<lparr>gh_name = ''Notion'', token = ''notion'', gh_tier = 1\<rparr>,
      \<lparr>gh_name = ''Discord'', token = ''discord'', gh_tier = 1\<rparr>,
      \<lparr>gh_name = ''Spotify'', token = ''spotify'', gh_tier = 1\<rparr>,
      \<lparr>gh_name = ''Uber'', token = ''uber'', gh_tier = 1\<rparr>,
      \<lparr>gh_name = ''DoorDash'', token = ''doordash'', gh_tier = 1\<rparr>,
      \<lparr>gh_name = ''Instacart'', token = ''instacart'', gh_tier = 1\<rparr>,
      \<lparr>gh_name = ''Lyft'', token = ''lyft'', gh_tier = 1\<rparr>,
      \<lparr>gh_name = ''Pinterest'', token = ''pinterest'', gh_tier = 1\<rparr>,
      \<lparr>gh_name = ''Snap'', token = ''snapchat'', gh_tier = 1\<rparr>,
      \<lparr>gh_name = ''Dropbox'', token = ''dropbox'', gh_tier = 1\<rparr>,
      \<lparr>gh_name = ''Reddit'', token = ''reddit'', gh_tier = 1\<rparr>,
      \<lparr>gh_name = ''Robinhood'', token = ''robinhood'', gh_tier = 1\<rparr>]"

definition TIER_2_greenhouse :: "GreenhouseCompany list" where
  "TIER_2_greenhouse =
     [\<lparr>gh_name = ''Accenture'', token = ''accenture'', gh_tier = 2\<rparr>,
      \<lparr>gh_name = ''Oracle'', token = ''oracle'', gh_tier = 2\<rparr>,
      \<lparr>gh_name = ''Cisco'', token = ''cisco'', gh_tier = 2\<rparr>,
      \<lparr>gh_name = ''Adobe'', token = ''adobecareers'', gh_tier = 2\<rparr>,
      \<lparr>gh_name = ''MongoDB'', token = ''mongodb'', gh_tier = 2\<rparr>,
      \<lparr>gh_name = ''GitLab'', token = ''gitlab'', gh_tier = 2\<rparr>,
      \<lparr>gh_name = ''HashiCorp'', token = ''hashicorp'', gh_tier = 2\<rparr>,
      \<lparr>gh_name = ''Elastic'', token = ''elastic'', gh_tier = 2\<rparr>,
      \<lparr>gh_name = ''Datadog'', token = ''datadog'', gh_tier = 2\<rparr>,
      \<lparr>gh_name = ''Confluent'', token = ''confluent'', gh_tier = 2\<rparr>,
      \<lparr>gh_name = ''Twilio'', token = ''twilio'', gh_tier = 2\<rparr>,
      \<lparr>gh_name = ''Plaid'', token = ''plaid'', gh_tier = 2\<rparr>,
      \<lparr>gh_name = ''Rippling'', token = ''rippling'', gh_tier = 2\<rparr>,
      \<lparr>gh_name = ''Brex'', token = ''brex'', gh_tier = 2\<rparr>,
      \<lparr>gh_name = ''Ramp'', token = ''ramp'', gh_tier = 2\<rparr>,
      \<lparr>gh_name = ''Mercury'', token = ''mercury'', gh_tier = 2\<rparr>,
      \<lparr>gh_name = ''Deel'', token = ''deel'', gh_tier = 2\<rparr>,
      \<lparr>gh_name = ''Retool'', token = ''retool'', gh_tier = 2\<rparr>,
      \<lparr>gh_name = ''Vercel'', token = ''vercel'', gh_tier = 2\<rparr>,
      \<lparr>gh_name = ''Linear'', token = ''linear'', gh_tier = 2\<rparr>]"

definition TIER_3_workable :: "WorkableCompany list" where
  "TIER_3_workable =
     [\<lparr>wk_name = ''Revolut'', subdomain = ''revolut'', wk_tier = 3\<rparr>,
      \<lparr>wk_name = ''Wise'', subdomain = ''transferwise'', wk_tier = 3\<rparr>,
      \<lparr>wk_name = ''N26'', subdomain = ''n26'', wk_tier = 3\<rparr>,
      \<lparr>wk_name = ''Monzo'', subdomain = ''monzo'', wk_tier = 3\<rparr>,
      \<lparr>wk_name = ''Klarna'', subdomain = ''klarna'', wk_tier = 3\<rparr>]"

text \<open>
  A promise either settles, fulfilled with a value or rejected, or never settles (\<open>None\<close>).
  \<^verbatim>\<open>Promise.allSettled(batch)\<close> resolves once every promise of the batch has settled, with
  one settled result per promise in submission order; while one of them is pending it
  stays pending. The loop \<^verbatim>\<open>for (let i = 0; i < allPromises.length; i += batchSize)\<close> takes
  the slice \<^verbatim>\<open>allPromises.slice(i, i + batchSize)\<close>, awaits \<^verbatim>\<open>Promise.allSettled\<close> of it and
  appends the value of every fulfilled result to \<^verbatim>\<open>allJobs\<close>.
\<close>

datatype 'a settled = Fulfilled 'a | Rejected

type_synonym 'a promise = "'a settled option"

definition batchSize :: nat where
  "batchSize = 10"

fun allSettled :: "'a promise list \<Rightarrow> 'a settled list option" where
  "allSettled [] = Some []"
| "allSettled (None # ps) = None"
| "allSettled (Some r # ps) =
     (case allSettled ps of None \<Rightarrow> None | Some results \<Rightarrow> Some (r # results))"

fun pushFulfilled :: "'a list \<Rightarrow> 'a list settled list \<Rightarrow> 'a list" where
  "pushFulfilled allJobs [] = allJobs"
| "pushFulfilled allJobs (Fulfilled v # results) = pushFulfilled (allJobs @ v) results"
| "pushFulfilled allJobs (Rejected # results) = pushFulfilled allJobs results"

function collectBatches :: "'a list promise list \<Rightarrow> nat \<Rightarrow> 'a list \<Rightarrow> 'a list option" where
  "collectBatches allPromises i allJobs =
     (if i < length allPromises
      then (case allSettled (take batchSize (drop i allPromises)) of
              None \<Rightarrow> None
            | Some results \<Rightarrow>
                collectBatches allPromises (i + batchSize) (pushFulfilled allJobs results))
      else Some allJobs)"
  by pat_completeness auto
termination
  by (relation "measure (\<lambda>(allPromises, i, allJobs). length allPromises - i)")
    (auto simp: batchSize_def)

declare collectBatches.simps [simp del]

text \<open>
  What a settled result contributes to \<^verbatim>\<open>allJobs\<close>: its value when fulfilled, nothing when
  rejected.
\<close>

definition settledValue :: "'a list settled \<Rightarrow> 'a list" where
  "settledValue r = (case r of Fulfilled v \<Rightarrow> v | Rejected \<Rightarrow> [])"

text \<open>
  The promises of the handler: an \<^verbatim>\<open>async\<close> client whose whole body is inside
  \<^verbatim>\<open>try\<close>/\<^verbatim>\<open>catch\<close> fulfils with the list it returns, and stays pending when it never
  returns. \<open>ghNet\<close> and \<open>wkNet\<close> say what the network does for each source.
\<close>

definition promiseOf :: "'a option \<Rightarrow> 'a promise" where
  "promiseOf returned = (case returned of None \<Rightarrow> None | Some v \<Rightarrow> Some (Fulfilled v))"

definition allPromises ::
  "int \<Rightarrow> (GreenhouseCompany \<Rightarrow> GreenhouseJob fetch_outcome)
       \<Rightarrow> (WorkableCompany \<Rightarrow> WorkableJob fetch_outcome) \<Rightarrow> JobListing list promise list" where
  "allPromises now ghNet wkNet =
     map (\<lambda>c. promiseOf (fetchGreenhouseJobs now c (ghNet c))) TIER_1_greenhouse
     @ map (\<lambda>c. promiseOf (fetchGreenhouseJobs now c (ghNet c))) TIER_2_greenhouse
     @ map (\<lambda>c. promiseOf (fetchWorkableJobs now c (wkNet c))) TIER_3_workable"

definition fetchAllJobs ::
  "int \<Rightarrow> (GreenhouseCompany \<Rightarrow> GreenhouseJob fetch_outcome)
       \<Rightarrow> (WorkableCompany \<Rightarrow> WorkableJob fetch_outcome) \<Rightarrow> JobListing list option" where
  "fetchAllJobs now ghNet wkNet = collectBatches (allPromises now ghNet wkNet) 0 []"

text \<open>
  The rest of the pass: deduplicate, score (\<^verbatim>\<open>job.match_score = calculateScore(...)\<close> for
  every job), mix, and paginate with \<^verbatim>\<open>slice(offset, offset + limit)\<close>.
\<close>

definition scoreJobs :: "int \<Rightarrow> string list \<Rightarrow> string list \<Rightarrow> JobListing list \<Rightarrow> JobListing list" where
  "scoreJobs now kws locs jobs =
     map (\<lambda>job. job\<lparr>match_score := calculateScore now job kws locs\<rparr>) jobs"

definition paginatedJobs ::
  "int \<Rightarrow> string list \<Rightarrow> string list \<Rightarrow> nat \<Rightarrow> nat \<Rightarrow> JobListing list \<Rightarrow> JobListing list" where
  "paginatedJobs now kws locs limit offset allJobs =
     (let mixedJobs = mixJobsByTier now (scoreJobs now kws locs (uniqueJobs allJobs))
      in take limit (drop offset mixedJobs))"

section \<open>Feed service: conditional fetch\<close>







record JobRow =
  row_company :: string
  created_at :: "string option"
  posted_date :: "string option"



text \<open>
  A formatted job: the row with \<^verbatim>\<open>company_tier\<close>, \<^verbatim>\<open>posted_delta\<close> and \<^verbatim>\<open>isNew\<close>. The
  feed has its own \<^verbatim>\<open>getTimeDelta\<close>, which answers \<^verbatim>\<open>'Recently'\<close> for a missing date and
  otherwise computes as the one of the scraper. \<^verbatim>\<open>isNew\<close> is kept as its truth value.
  \<^verbatim>\<open>new Date(null)\<close> is the epoch, so a row without \<^verbatim>\<open>created_at\<close> has the time 0 in the
  comparator of the sort.
\<close>

record FormattedJob =
  fj_row :: JobRow
  fj_company_tier :: nat
  fj_posted_delta :: string
  isNew :: bool



record FeedStats =
  tier1 :: nat
  tier2 :: nat
  tier3 :: nat





datatype feed_body =
    ErrorBody string
  | JobFeed "FormattedJob list" nat bool string FeedStats

record FeedResponse =
  status :: nat
  body :: "feed_body option"
  etag_header :: "string option"
  last_modified_header :: "string option"






section \<open>Sample listings\<close>

text \<open>Concrete listings on which the theorems below are instantiated.\<close>

definition sampleJob :: "string \<Rightarrow> string \<Rightarrow> nat \<Rightarrow> int \<Rightarrow> date_string \<Rightarrow> JobListing" where
  "sampleJob i u t s p =
     \<lparr>job_id = i, title = ''Python Engineer'', company = ''Acme'', company_tier = t,
      location = ''Berlin'', salary_range = None, url = u, posted_delta = [],
      posted_at = p, snippet = [], requirements = [], source = ''greenhouse'',
      match_score = s\<rparr>"

definition jobA :: JobListing where
  "jobA = sampleJob ''A'' ''https://e.test/a'' 1 90 (Some (1000000000 - 2 * 3600000))"

definition jobB :: JobListing where
  "jobB = sampleJob ''B'' ''https://e.test/b'' 1 80 (Some (1000000000 - 48 * 3600000))"

definition jobC :: JobListing where
  "jobC = sampleJob ''C'' ''https://e.test/c'' 1 70 (Some (1000000000 - 1 * 3600000))"




definition numberedJob :: "nat \<Rightarrow> nat \<Rightarrow> JobListing" where
  "numberedJob t i =
     sampleJob (digitsOfNat i) (''https://e.test/jobs/'' @ digitsOfNat i) t 0 (Some 0)"

definition ninetyJobs :: "JobListing list" where
  "ninetyJobs =
     map (numberedJob 1) [0..<63] @ map (numberedJob 2) [63..<81]
       @ map (numberedJob 3) [81..<90]"

definition undatedJobs :: "JobListing list" where
  "undatedJobs =
     sampleJob ''0'' ''https://e.test/jobs/0'' 1 99 None # map (numberedJob 1) [1..<10]"

text \<open>Sources, raw postings and feed requests for the instances below.\<close>

definition stripe :: GreenhouseCompany where
  "stripe = \<lparr>gh_name = ''Stripe'', token = ''stripe'', gh_tier = 1\<rparr>"

definition revolut :: WorkableCompany where
  "revolut = \<lparr>wk_name = ''Revolut'', subdomain = ''revolut'', wk_tier = 3\<rparr>"

definition markup :: string where
  "markup = ''<p>Senior   Engineer</p>''"

definition greenhousePosting :: "string \<Rightarrow> GreenhouseJob" where
  "greenhousePosting html =
     \<lparr>gh_id = ''4001'', gh_title = Some ''Engineer'', gh_location_name = Some ''Dublin'',
      absolute_url = None, updated_at = Absent, content = Some html\<rparr>"

definition workablePosting :: "string \<Rightarrow> WorkableJob" where
  "workablePosting html =
     \<lparr>shortcode = ''ABC123'', wk_title = Some ''Engineer'', location_city = Some ''Dublin'',
      location_country = None, published = Absent, description = Some html\<rparr>"







text \<open>A network in which Stripe sends its headers and then stalls, all else being empty.\<close>

definition stalledStripe :: "GreenhouseCompany \<Rightarrow> GreenhouseJob fetch_outcome" where
  "stalledStripe c =
     (if token c = ''stripe'' then Response 200 Stalled else Response 200 (Data (Some [])))"

definition emptyWorkable :: "WorkableCompany \<Rightarrow> WorkableJob fetch_outcome" where
  "emptyWorkable c = Response 200 (Data (Some []))"

section \<open>Properties of the deduplication\<close>

lemma dedupFilter_urls:
  "url ` set (dedupFilter seen xs) = url ` set xs - seen"
  by (induction xs arbitrary: seen) auto

lemma dedupFilter_fresh: "j \<in> set (dedupFilter seen xs) \<Longrightarrow> url j \<notin> seen"
  using dedupFilter_urls [of seen xs] by blast

lemma dedupFilter_distinct: "distinct (map url (dedupFilter seen xs))"
proof (induction xs arbitrary: seen)
  case Nil
  then show ?case by simp
next
  case (Cons x xs)
  have "url x \<notin> url ` set (dedupFilter (insert (url x) seen) xs)"
  proof
    assume "url x \<in> url ` set (dedupFilter (insert (url x) seen) xs)"
    then obtain j where "j \<in> set (dedupFilter (insert (url x) seen) xs)" and "url x = url j"
      by blast
    with dedupFilter_fresh [of j "insert (url x) seen" xs] show False by simp
  qed
  with Cons.IH show ?case by simp
qed

lemma dedupFilter_subseq: "subseq (dedupFilter seen xs) xs"
  by (induction xs arbitrary: seen) auto

lemma dedupFilter_first:
  "j \<in> set (dedupFilter seen xs) \<Longrightarrow> find (\<lambda>k. url k = url j) xs = Some j"
proof (induction xs arbitrary: seen)
  case Nil
  then show ?case by simp
next
  case (Cons x xs)
  show ?case
  proof (cases "url x \<in> seen")
    case True
    with Cons.prems have mem: "j \<in> set (dedupFilter seen xs)" by simp
    then have "url j \<notin> seen" by (rule dedupFilter_fresh)
    with True have "url x \<noteq> url j" by auto
    with Cons.IH [OF mem] show ?thesis by simp
  next
    case False
    with Cons.prems have "j = x \<or> j \<in> set (dedupFilter (insert (url x) seen) xs)" by simp
    then show ?thesis
    proof
      assume "j = x"
      then show ?thesis by simp
    next
      assume mem: "j \<in> set (dedupFilter (insert (url x) seen) xs)"
      then have "url j \<notin> insert (url x) seen" by (rule dedupFilter_fresh)
      then have "url x \<noteq> url j" by auto
      with Cons.IH [OF mem] show ?thesis by simp
    qed
  qed
qed

text \<open>
  C2. Deduplication: the output of the URL filter has exactly one listing per distinct url of
  the input (the urls of the output are pairwise different and are exactly the urls of the
  input); every surviving listing is the first listing of the input that carries its url; and
  the survivors stand in their input order (the output is a subsequence of the input), which
  is the order in which their urls were first seen.
\<close>

theorem uniqueJobs_first_occurrence:
  "distinct (map url (uniqueJobs allJobs))
   \<and> set (map url (uniqueJobs allJobs)) = set (map url allJobs)
   \<and> (\<forall>j \<in> set (uniqueJobs allJobs). find (\<lambda>k. url k = url j) allJobs = Some j)
   \<and> subseq (uniqueJobs allJobs) allJobs"
  unfolding uniqueJobs_def
  using dedupFilter_distinct [of "{}" allJobs] dedupFilter_urls [of "{}" allJobs]
    dedupFilter_subseq [of "{}" allJobs] dedupFilter_first [of _ "{}" allJobs]
  by simp

theorem uniqueJobs_first_occurrence_witness:
  "uniqueJobs [sampleJob ''1'' ''a'' 1 0 None, sampleJob ''2'' ''a'' 1 0 None,
               sampleJob ''3'' ''b'' 3 0 None]
     = [sampleJob ''1'' ''a'' 1 0 None, sampleJob ''3'' ''b'' 3 0 None]
   \<and> find (\<lambda>k. url k = url (sampleJob ''1'' ''a'' 1 0 None))
        [sampleJob ''1'' ''a'' 1 0 None, sampleJob ''2'' ''a'' 1 0 None,
         sampleJob ''3'' ''b'' 3 0 None]
     = Some (sampleJob ''1'' ''a'' 1 0 None)"
proof -
  let ?xs = "[sampleJob ''1'' ''a'' 1 0 None, sampleJob ''2'' ''a'' 1 0 None,
              sampleJob ''3'' ''b'' 3 0 None]"
  have out: "uniqueJobs ?xs = [sampleJob ''1'' ''a'' 1 0 None, sampleJob ''3'' ''b'' 3 0 None]"
    by (simp add: uniqueJobs_def sampleJob_def)
  then have mem: "sampleJob ''1'' ''a'' 1 0 None \<in> set (uniqueJobs ?xs)" by simp
  from uniqueJobs_first_occurrence [of ?xs] mem out show ?thesis by blast
qed

section \<open>Properties of the relative time and of the score\<close>

lemma numberToString_examples:
  "numberToString 5 = ''5''" "numberToString 1 = ''1''"
  by code_simp+

lemma getTimeDelta_buckets:
  "getTimeDelta now (Some posted) =
     (let elapsed = now - posted
      in if elapsed < 60 * 60000 then numberToString (elapsed div 60000) @ '' min ago''
         else if elapsed < 24 * 3600000 then numberToString (elapsed div 3600000) @ ''h ago''
         else if elapsed < 7 * 86400000 then numberToString (elapsed div 86400000) @ ''d ago''
         else numberToString (elapsed div 604800000) @ ''w ago'')"
proof -
  let ?e = "now - posted"
  have m: "?e div 60000 < 60 \<longleftrightarrow> ?e < 3600000" by linarith
  have h: "?e div 60000 div 60 = ?e div 3600000"
    using zdiv_zmult2_eq [of 60 ?e 60000] by simp
  have hl: "?e div 3600000 < 24 \<longleftrightarrow> ?e < 86400000" by linarith
  have d: "?e div 3600000 div 24 = ?e div 86400000"
    using zdiv_zmult2_eq [of 24 ?e 3600000] by simp
  have dl: "?e div 86400000 < 7 \<longleftrightarrow> ?e < 604800000" by linarith
  have w: "?e div 86400000 div 7 = ?e div 604800000"
    using zdiv_zmult2_eq [of 7 ?e 86400000] by simp
  show ?thesis
    unfolding getTimeDelta_def Let_def option.case h d w m hl dl
    by simp
qed

text \<open>
  C9. Recency buckets: for a posting time \<open>posted\<close> and the elapsed time \<open>now - posted\<close>,
  the result is "N min ago" when less than 60 minutes have elapsed, "Nh ago" when less than
  24 hours, "Nd ago" when less than 7 days and "Nw ago" otherwise, N being the floor of the
  elapsed time in that unit; 5 minutes give "5 min ago", 25 hours "1d ago", 10 days "1w ago".
\<close>

theorem getTimeDelta_recency_buckets:
  "getTimeDelta now (Some posted) =
     (let elapsed = now - posted
      in if elapsed < 60 * 60000 then numberToString (elapsed div 60000) @ '' min ago''
         else if elapsed < 24 * 3600000 then numberToString (elapsed div 3600000) @ ''h ago''
         else if elapsed < 7 * 86400000 then numberToString (elapsed div 86400000) @ ''d ago''
         else numberToString (elapsed div 604800000) @ ''w ago'')
   \<and> getTimeDelta now (Some (now - 5 * 60000)) = ''5 min ago''
   \<and> getTimeDelta now (Some (now - 25 * 3600000)) = ''1d ago''
   \<and> getTimeDelta now (Some (now - 10 * 86400000)) = ''1w ago''"
  by (simp add: getTimeDelta_buckets numberToString_examples)

lemma keywordLoop_acc: "keywordLoop jt acc kws = acc + keywordLoop jt 0 kws"
proof (induction kws arbitrary: acc)
  case Nil
  then show ?case by simp
next
  case (Cons kw kws)
  from Cons.IH [of "acc + 5"] Cons.IH [of acc] Cons.IH [of 5]
  show ?case by simp
qed

lemma keywordLoop_nonneg: "0 \<le> keywordLoop jt 0 kws"
proof (induction kws)
  case Nil
  then show ?case by simp
next
  case (Cons kw kws)
  then show ?case using keywordLoop_acc [of jt 5 kws] by simp
qed

lemma keywordLoop_append:
  "keywordLoop jt acc (xs @ ys) = keywordLoop jt (keywordLoop jt acc xs) ys"
  by (induction xs arbitrary: acc) simp_all

lemma tierBonus_bounds: "5 \<le> tierBonus t \<and> tierBonus t \<le> 20"
  by (simp add: tierBonus_def)

lemma locationBonus_bounds: "0 \<le> locationBonus l ls \<and> locationBonus l ls \<le> 15"
  by (simp add: locationBonus_def)

lemma recencyBonus_bounds: "0 \<le> recencyBonus now p \<and> recencyBonus now p \<le> 10"
  by (simp add: recencyBonus_def Let_def split: option.split)

lemma calculateScore_sum:
  "calculateScore now job kws locs =
     min 100 (50 + tierBonus (company_tier job)
                 + min 30 (keywordLoop (jobText job) 0 kws)
                 + locationBonus (toLowerCase (location job)) locs
                 + recencyBonus now (posted_at job))"
  by (simp add: calculateScore_def Let_def)

lemma calculateScore_range:
  "0 \<le> calculateScore now job kws locs \<and> calculateScore now job kws locs \<le> 100"
  using tierBonus_bounds [of "company_tier job"]
    locationBonus_bounds [of "toLowerCase (location job)" locs]
    recencyBonus_bounds [of now "posted_at job"]
    keywordLoop_nonneg [of "jobText job" kws]
  by (simp add: calculateScore_sum)

lemma scoreJobs_range:
  "j \<in> set (scoreJobs now kws locs jobs) \<Longrightarrow> 0 \<le> match_score j \<and> match_score j \<le> 100"
  using calculateScore_range by (auto simp: scoreJobs_def)

lemma scoreJobs_urls: "map url (scoreJobs now kws locs jobs) = map url jobs"
  by (simp add: scoreJobs_def comp_def)

text \<open>
  C3. Score bounds: for every listing, keyword list and location list the score is an integer
  between 0 and 100; it is 50 plus the tier bonus plus the keyword bonus (between 0 and 30)
  plus the location and recency bonuses, clamped to the range from 0 to 100. The code
  applies the upper clamp only; the lower one changes nothing, the sum being at least 55.
\<close>

theorem calculateScore_bounds:
  "0 \<le> calculateScore now job kws locs
   \<and> calculateScore now job kws locs \<le> 100
   \<and> calculateScore now job kws locs =
       max 0 (min 100 (50 + tierBonus (company_tier job)
                          + min 30 (keywordLoop (jobText job) 0 kws)
                          + locationBonus (toLowerCase (location job)) locs
                          + recencyBonus now (posted_at job)))
   \<and> 0 \<le> min 30 (keywordLoop (jobText job) 0 kws)
   \<and> min 30 (keywordLoop (jobText job) 0 kws) \<le> 30"
  using tierBonus_bounds [of "company_tier job"]
    locationBonus_bounds [of "toLowerCase (location job)" locs]
    recencyBonus_bounds [of now "posted_at job"]
    keywordLoop_nonneg [of "jobText job" kws]
  by (simp add: calculateScore_sum)

lemma jobText_tier [simp]: "jobText (job\<lparr>company_tier := t\<rparr>) = jobText job"
  by (simp add: jobText_def)

lemma cap_mono: "(x::int) \<le> y \<Longrightarrow> min c x \<le> min c y"
  by simp

lemma calculateScore_tier_step:
  "tierBonus t \<le> tierBonus t' \<Longrightarrow>
   calculateScore now (job\<lparr>company_tier := t\<rparr>) kws locs
     \<le> calculateScore now (job\<lparr>company_tier := t'\<rparr>) kws locs"
  unfolding calculateScore_sum by (rule cap_mono) simp

lemma calculateScore_keyword_step:
  "calculateScore now job (ks1 @ ks2) locs \<le> calculateScore now job (ks1 @ kw # ks2) locs"
proof -
  have "keywordLoop (jobText job) 0 (ks1 @ ks2)
          \<le> keywordLoop (jobText job) 0 (ks1 @ kw # ks2)"
    using keywordLoop_acc [of "jobText job" "keywordLoop (jobText job) 0 ks1" ks2]
      keywordLoop_acc [of "jobText job" "keywordLoop (jobText job) 0 ks1 + 5" ks2]
    by (simp add: keywordLoop_append)
  then have "min 30 (keywordLoop (jobText job) 0 (ks1 @ ks2))
          \<le> min 30 (keywordLoop (jobText job) 0 (ks1 @ kw # ks2))"
    by (rule cap_mono)
  then show ?thesis
    unfolding calculateScore_sum by (intro cap_mono) simp
qed

text \<open>
  C4. Score monotonicity: with every other input fixed, a listing scores at tier 2 at least
  what it scores at tier 3, and at tier 1 at least what it scores at tier 2; and inserting a
  keyword into the keyword list never lowers the score. A keyword that matches the listing's
  text adds exactly 5 to the keyword sum before that sum is capped at 30.
\<close>

theorem calculateScore_monotone:
  "calculateScore now (job\<lparr>company_tier := 3\<rparr>) kws locs
     \<le> calculateScore now (job\<lparr>company_tier := 2\<rparr>) kws locs
   \<and> calculateScore now (job\<lparr>company_tier := 2\<rparr>) kws locs
     \<le> calculateScore now (job\<lparr>company_tier := 1\<rparr>) kws locs
   \<and> calculateScore now job (ks1 @ ks2) locs
     \<le> calculateScore now job (ks1 @ kw # ks2) locs
   \<and> (kw \<noteq> [] \<and> str_includes (jobText job) (toLowerCase kw) \<longrightarrow>
        keywordLoop (jobText job) 0 (ks1 @ kw # ks2)
          = keywordLoop (jobText job) 0 (ks1 @ ks2) + 5)"
  using calculateScore_tier_step [of 3 2 now job kws locs]
    calculateScore_tier_step [of 2 1 now job kws locs]
    calculateScore_keyword_step [of now job ks1 ks2 locs kw]
    keywordLoop_acc [of "jobText job" "keywordLoop (jobText job) 0 ks1" ks2]
    keywordLoop_acc [of "jobText job" "keywordLoop (jobText job) 0 ks1 + 5" ks2]
  by (simp add: tierBonus_def keywordLoop_append)

theorem calculateScore_monotone_witness:
  "''python'' \<noteq> [] \<and> str_includes (jobText (sampleJob ''1'' ''a'' 3 0 None)) (toLowerCase ''python'')
   \<and> keywordLoop (jobText (sampleJob ''1'' ''a'' 3 0 None)) 0 ([''aws''] @ ''python'' # [''engineer''])
      = keywordLoop (jobText (sampleJob ''1'' ''a'' 3 0 None)) 0 ([''aws''] @ [''engineer'']) + 5
   \<and> calculateScore 0 (sampleJob ''1'' ''a'' 3 0 None) ([''aws''] @ [''engineer'']) [] = 60
   \<and> calculateScore 0 (sampleJob ''1'' ''a'' 3 0 None) ([''aws''] @ ''python'' # [''engineer'']) [] = 65"
proof -
  have m: "''python'' \<noteq> [] \<and> str_includes (jobText (sampleJob ''1'' ''a'' 3 0 None)) (toLowerCase ''python'')"
    by code_simp
  have a: "calculateScore 0 (sampleJob ''1'' ''a'' 3 0 None) ([''aws''] @ [''engineer'']) [] = 60"
    by code_simp
  have b: "calculateScore 0 (sampleJob ''1'' ''a'' 3 0 None) ([''aws''] @ ''python'' # [''engineer'']) [] = 65"
    by code_simp
  from calculateScore_monotone [of 0 "sampleJob ''1'' ''a'' 3 0 None" "[]" "[]" "[''aws'']" "[''engineer'']" "''python''"] m a b
  show ?thesis by blast
qed
section \<open>Properties of the tier mixer\<close>

lemma tierJobs_sorted_subset: "set (take n (sortByScore (tierJobs t jobs))) \<subseteq> {j. company_tier j = t}"
  using set_take_subset [of n "sortByScore (tierJobs t jobs)"]
  by (auto simp: sortByScore_def tierJobs_def)

lemma filter_take_tier:
  "filter (\<lambda>j. company_tier j = u) (take n (sortByScore (tierJobs t jobs)))
     = (if u = t then take n (sortByScore (tierJobs t jobs)) else [])"
proof -
  have "\<forall>j \<in> set (take n (sortByScore (tierJobs t jobs))). company_tier j = t"
    using tierJobs_sorted_subset [of n t jobs] by blast
  then show ?thesis
    by (auto simp: filter_empty_conv intro: filter_True)
qed

lemma filter_mixTiers:
  "filter (\<lambda>j. company_tier j = u) (mixTiers jobs) =
     (if u = 1 then take (tier1Count (length jobs)) (sortByScore (tierJobs 1 jobs))
      else if u = 2 then take (tier2Count (length jobs)) (sortByScore (tierJobs 2 jobs))
      else if u = 3 then take (tier3Count (length jobs)) (sortByScore (tierJobs 3 jobs))
      else [])"
  by (simp add: mixTiers_def Let_def filter_take_tier)

lemma length_sortByScore [simp]: "length (sortByScore js) = length js"
  by (simp add: sortByScore_def)

lemma length_mixTiers:
  "length (mixTiers jobs) =
     min (tier1Count (length jobs)) (length (tierJobs 1 jobs))
     + min (tier2Count (length jobs)) (length (tierJobs 2 jobs))
     + min (tier3Count (length jobs)) (length (tierJobs 3 jobs))"
  by (simp add: mixTiers_def Let_def min.commute)




lemma set_mixTiers: "set (mixTiers jobs) \<subseteq> set jobs"
proof -
  have "\<And>n t. set (take n (sortByScore (tierJobs t jobs))) \<subseteq> set jobs"
  proof -
    fix n t
    have "set (take n (sortByScore (tierJobs t jobs))) \<subseteq> set (sortByScore (tierJobs t jobs))"
      by (rule set_take_subset)
    also have "\<dots> \<subseteq> set jobs" by (auto simp: sortByScore_def tierJobs_def)
    finally show "set (take n (sortByScore (tierJobs t jobs))) \<subseteq> set jobs" .
  qed
  then show ?thesis by (simp add: mixTiers_def Let_def)
qed

lemma sortByScore_descending:
  "sorted_wrt (\<lambda>a b. match_score b \<le> match_score a) (sortByScore js)"
proof -
  have "sorted (map (\<lambda>j. - match_score j) (sortByScore js))"
    by (simp add: sortByScore_def)
  then show ?thesis by (simp add: sorted_map)
qed

lemma selection_highest_scored:
  assumes "a \<in> set (take n (sortByScore js))" and "b \<in> set (drop n (sortByScore js))"
  shows "match_score b \<le> match_score a"
proof -
  have "sorted_wrt (\<lambda>a b. match_score b \<le> match_score a)
          (take n (sortByScore js) @ drop n (sortByScore js))"
    using sortByScore_descending [of js] by simp
  with assms show ?thesis unfolding sorted_wrt_append by blast
qed

lemma selection_partition:
  "mset (take n (sortByScore js)) + mset (drop n (sortByScore js)) = mset js"
proof -
  have "mset (take n (sortByScore js)) + mset (drop n (sortByScore js))
          = mset (take n (sortByScore js) @ drop n (sortByScore js))"
    by (simp only: mset_append)
  then show ?thesis by (simp add: sortByScore_def)
qed

lemma recent_older_split:
  "mset (recentJobs c xs) + mset (olderJobs c xs) = mset (filter (\<lambda>j. posted_at j \<noteq> None) xs)"
  by (induction xs) (auto simp: recentJobs_def olderJobs_def split: option.splits)

lemma mset_mixJobsByTier:
  "mset (mixJobsByTier now jobs) = mset (filter (\<lambda>j. posted_at j \<noteq> None) (mixTiers jobs))"
  using recent_older_split [of "now - 24 * 60 * 60 * 1000" "mixTiers jobs"]
  by (simp add: mixJobsByTier_def Let_def sortByPosted_def)

lemma mset_mixJobsByTier_valid:
  assumes "\<forall>j \<in> set jobs. posted_at j \<noteq> None"
  shows "mset (mixJobsByTier now jobs) = mset (mixTiers jobs)"
proof -
  from assms set_mixTiers [of jobs] have "\<forall>j \<in> set (mixTiers jobs). posted_at j \<noteq> None"
    by blast
  then have "filter (\<lambda>j. posted_at j \<noteq> None) (mixTiers jobs) = mixTiers jobs"
    by (intro filter_True) 
  then show ?thesis by (simp add: mset_mixJobsByTier)
qed

lemma length_mixJobsByTier_valid:
  assumes "\<forall>j \<in> set jobs. posted_at j \<noteq> None"
  shows "length (mixJobsByTier now jobs) =
     min (tier1Count (length jobs)) (length (tierJobs 1 jobs))
     + min (tier2Count (length jobs)) (length (tierJobs 2 jobs))
     + min (tier3Count (length jobs)) (length (tierJobs 3 jobs))"
proof -
  have "length (mixJobsByTier now jobs) = size (mset (mixJobsByTier now jobs))" by simp
  also have "\<dots> = size (mset (mixTiers jobs))"
    by (simp only: mset_mixJobsByTier_valid [OF assms])
  also have "\<dots> = length (mixTiers jobs)" by simp
  finally show ?thesis by (simp only: length_mixTiers)
qed

lemma tierJobs_mixJobsByTier_valid:
  assumes "\<forall>j \<in> set jobs. posted_at j \<noteq> None"
  shows "length (tierJobs t (mixJobsByTier now jobs)) = length (tierJobs t (mixTiers jobs))"
proof -
  have "length (tierJobs t (mixJobsByTier now jobs))
          = size (filter_mset (\<lambda>j. company_tier j = t) (mset (mixJobsByTier now jobs)))"
    by (simp add: tierJobs_def flip: mset_filter)
  also have "\<dots> = size (filter_mset (\<lambda>j. company_tier j = t) (mset (mixTiers jobs)))"
    by (simp only: mset_mixJobsByTier_valid [OF assms])
  also have "\<dots> = length (tierJobs t (mixTiers jobs))"
    by (simp add: tierJobs_def flip: mset_filter)
  finally show ?thesis .
qed

lemma length_tierJobs_mixTiers:
  "length (tierJobs 1 (mixTiers jobs)) = min (tier1Count (length jobs)) (length (tierJobs 1 jobs))"
  "length (tierJobs 2 (mixTiers jobs)) = min (tier2Count (length jobs)) (length (tierJobs 2 jobs))"
  "length (tierJobs 3 (mixTiers jobs)) = min (tier3Count (length jobs)) (length (tierJobs 3 jobs))"
  by (simp_all add: tierJobs_def [of _ "mixTiers jobs"] filter_mixTiers min.commute)

subsection \<open>The quotas in double precision\<close>

lemma bitLength_pos: "0 < p \<Longrightarrow> bitLength p = Suc (bitLength (p div 2))"
  by (subst bitLength.simps) simp

lemma bitLength_nonpos: "p \<le> 0 \<Longrightarrow> bitLength p = 0"
  by (subst bitLength.simps) simp

lemma bitLength_bounds:
  "0 < p \<Longrightarrow> 2 ^ (bitLength p - 1) \<le> p \<and> p < 2 ^ bitLength p"
proof (induction p rule: bitLength.induct)
  case (1 n)
  define b where "b = bitLength (n div 2)"
  have bn: "bitLength n = Suc b"
    using "1.prems" by (simp add: bitLength_pos b_def)
  show ?case
  proof (cases "n div 2 \<le> 0")
    case True
    with "1.prems" have "n = 1" by linarith
    then show ?thesis by (simp add: bitLength_pos bitLength_nonpos)
  next
    case False
    then have pos: "0 < n div 2" by simp
    from "1.prems" have "\<not> n \<le> 0" by simp
    from "1.IH" [OF this pos]
    have lo: "2 ^ (b - 1) \<le> n div 2" and hi: "n div 2 < 2 ^ b"
      by (simp_all add: b_def)
    from pos have "b = Suc (b - 1)"
      by (simp add: bitLength_pos b_def)
    then have "(2::int) ^ b = 2 * 2 ^ (b - 1)"
      by (metis power_Suc)
    with lo hi have "2 ^ b \<le> n \<and> n < 2 * 2 ^ b" by linarith
    then show ?thesis by (simp add: bn)
  qed
qed

lemma bitLength_le: "0 \<le> p \<Longrightarrow> p < 2 ^ n \<Longrightarrow> bitLength p \<le> n"
proof (cases "p = 0")
  case True
  then show ?thesis by (simp add: bitLength_nonpos)
next
  case False
  assume "0 \<le> p" and lt: "p < 2 ^ n"
  with False have "0 < p" by simp
  then have "(2::int) ^ (bitLength p - 1) \<le> p" using bitLength_bounds by blast
  with lt have "(2::int) ^ (bitLength p - 1) < 2 ^ n" by linarith
  then have "bitLength p - 1 < n" by simp
  then show ?thesis by linarith
qed

text \<open>
  A product below \<open>2^85\<close> loses at most 32 bits: the rounded value is within \<open>2^31\<close> of
  the exact one, and it does not fall below a multiple of \<open>2^32\<close> that the exact value
  reaches.
\<close>

lemma roundToDouble_near:
  assumes "0 \<le> p" and "p < 2 ^ 85"
  shows "p - 2 ^ 31 \<le> roundToDouble p \<and> roundToDouble p \<le> p + 2 ^ 31"
proof (cases "bitLength p \<le> 53")
  case True
  then show ?thesis by (simp add: roundToDouble_def)
next
  case False
  define s where "s = bitLength p - 53"
  from assms have "bitLength p \<le> 85" by (rule bitLength_le)
  with False have s: "0 < s" "s \<le> 32" by (simp_all add: s_def)
  define q where "q = p div 2 ^ s"
  define r where "r = p mod 2 ^ s"
  have p: "p = q * 2 ^ s + r" unfolding q_def r_def by (rule div_mult_mod_eq [symmetric])
  have r: "0 \<le> r" "r < 2 ^ s" by (simp_all add: r_def)
  have "(2::int) ^ s \<le> 2 ^ 32" using s by (intro power_increasing) simp_all
  then have pw: "(2::int) ^ s \<le> 4294967296" by simp
  have R: "roundToDouble p
             = (if 2 ^ s < 2 * r \<or> (2 * r = 2 ^ s \<and> odd q) then q + 1 else q) * 2 ^ s"
    using False by (simp add: roundToDouble_def Let_def s_def q_def r_def)
  show ?thesis
  proof (cases "2 ^ s < 2 * r \<or> (2 * r = 2 ^ s \<and> odd q)")
    case True
    then have "roundToDouble p = q * 2 ^ s + 2 ^ s" by (simp add: R algebra_simps)
    with p r pw True show ?thesis by auto
  next
    case False
    then have "roundToDouble p = q * 2 ^ s" by (simp add: R)
    with p r pw False show ?thesis by auto
  qed
qed

lemma roundToDouble_grid:
  assumes "0 \<le> p" and "p < 2 ^ 85" and "lo \<le> p" and "2 ^ 32 dvd lo"
  shows "lo \<le> roundToDouble p"
proof (cases "bitLength p \<le> 53")
  case True
  with assms show ?thesis by (simp add: roundToDouble_def)
next
  case False
  define s where "s = bitLength p - 53"
  from assms have "bitLength p \<le> 85" by (intro bitLength_le)
  with False have s: "0 < s" "s \<le> 32" by (simp_all add: s_def)
  define q where "q = p div 2 ^ s"
  have "(2::int) ^ s dvd 2 ^ 32" using s by (intro le_imp_power_dvd) simp
  then have d: "2 ^ s dvd lo" using assms(4) by (rule dvd_trans)
  have "lo div 2 ^ s \<le> q" unfolding q_def using assms(3) by (intro zdiv_mono1) simp_all
  then have "lo div 2 ^ s * 2 ^ s \<le> q * 2 ^ s" by (intro mult_right_mono) simp_all
  with d have lo: "lo \<le> q * 2 ^ s" by simp
  have "q * 2 ^ s \<le> roundToDouble p"
    using False by (simp add: roundToDouble_def Let_def s_def q_def)
  with lo show ?thesis by linarith
qed

lemma div_between:
  fixes R k d :: int
  assumes "0 < d" and "k * d \<le> R" and "R < (k + 1) * d"
  shows "R div d = k"
proof -
  have "R = k * d + (R - k * d)" by simp
  moreover have "0 \<le> R - k * d" "R - k * d < d" using assms by (simp_all add: algebra_simps)
  ultimately show ?thesis
    by (metis add.commute div_mult_self2 div_pos_pos_trivial add.right_neutral assms(1) less_irrefl mult.commute)
qed

lemma product_range:
  fixes n m :: int
  assumes "0 \<le> n" and "n < 2 ^ 32" and "0 \<le> m" and "m < 2 ^ 53"
  shows "0 \<le> n * m" and "n * m < 2 ^ 85"
proof -
  show "0 \<le> n * m" using assms by simp
  have "n * m \<le> 2 ^ 32 * m" using assms by (intro mult_right_mono) simp_all
  also have "\<dots> < 2 ^ 32 * 2 ^ 53" using assms by (intro mult_strict_left_mono) simp_all
  finally show "n * m < 2 ^ 85" by simp
qed

text \<open>
  For every array length (below \<open>2^32\<close>) the second and third quota are the floors of
  \<open>N / 5\<close> and \<open>N / 10\<close>. The first quota is the floor of \<open>7 N / 10\<close> when \<open>N\<close> is not a
  multiple of 10, and that floor or one less when it is.
\<close>

lemma tier2Count_exact:
  assumes "N < 2 ^ 32"
  shows "tier2Count N = N div 5"
proof -
  define n where "n = int N"
  define k where "k = n div 5"
  define R where "R = roundToDouble (n * 7205759403792794)"
  have n: "0 \<le> n" "n < 2 ^ 32" using assms by (simp_all add: n_def)
  have k: "5 * k \<le> n" "n \<le> 5 * k + 4" "0 \<le> k" using n by (simp_all add: k_def)
  have range: "0 \<le> n * 7205759403792794" "n * 7205759403792794 < 2 ^ 85"
    using product_range [OF n, of 7205759403792794] by simp_all
  have "2 ^ 32 dvd k * (2 ^ 55 :: int)" by (simp add: le_imp_power_dvd)
  moreover have "k * 2 ^ 55 \<le> n * 7205759403792794" using k by simp
  ultimately have lower: "k * 2 ^ 55 \<le> R"
    unfolding R_def using range by (intro roundToDouble_grid) simp_all
  have "R \<le> n * 7205759403792794 + 2 ^ 31"
    unfolding R_def using roundToDouble_near [OF range] by simp
  with k n have upper: "R < (k + 1) * 2 ^ 55" by simp
  have "R div 2 ^ 55 = k" using lower upper by (intro div_between) simp_all
  then have "floorOfProduct n 7205759403792794 55 = k"
    by (simp add: floorOfProduct_def R_def)
  then show ?thesis
    by (simp add: tier2Count_def n_def k_def zdiv_int)
qed

lemma tier3Count_exact:
  assumes "N < 2 ^ 32"
  shows "tier3Count N = N div 10"
proof -
  define n where "n = int N"
  define k where "k = n div 10"
  define R where "R = roundToDouble (n * 7205759403792794)"
  have n: "0 \<le> n" "n < 2 ^ 32" using assms by (simp_all add: n_def)
  have k: "10 * k \<le> n" "n \<le> 10 * k + 9" "0 \<le> k" using n by (simp_all add: k_def)
  have range: "0 \<le> n * 7205759403792794" "n * 7205759403792794 < 2 ^ 85"
    using product_range [OF n, of 7205759403792794] by simp_all
  have "2 ^ 32 dvd k * (2 ^ 56 :: int)" by (simp add: le_imp_power_dvd)
  moreover have "k * 2 ^ 56 \<le> n * 7205759403792794" using k by simp
  ultimately have lower: "k * 2 ^ 56 \<le> R"
    unfolding R_def using range by (intro roundToDouble_grid) simp_all
  have "R \<le> n * 7205759403792794 + 2 ^ 31"
    unfolding R_def using roundToDouble_near [OF range] by simp
  with k n have upper: "R < (k + 1) * 2 ^ 56" by simp
  have "R div 2 ^ 56 = k" using lower upper by (intro div_between) simp_all
  then have "floorOfProduct n 7205759403792794 56 = k"
    by (simp add: floorOfProduct_def R_def)
  then show ?thesis
    by (simp add: tier3Count_def n_def k_def zdiv_int)
qed

lemma tier1Count_range:
  assumes "N < 2 ^ 32"
  shows "7 * N div 10 - 1 \<le> tier1Count N \<and> tier1Count N \<le> 7 * N div 10
         \<and> (N mod 10 \<noteq> 0 \<longrightarrow> tier1Count N = 7 * N div 10)"
proof -
  define n where "n = int N"
  define k where "k = (7 * n) div 10"
  define R where "R = roundToDouble (n * 6305039478318694)"
  have n: "0 \<le> n" "n < 2 ^ 32" using assms by (simp_all add: n_def)
  have k: "10 * k \<le> 7 * n" "7 * n \<le> 10 * k + 9" "0 \<le> k" using n by (simp_all add: k_def)
  have range: "0 \<le> n * 6305039478318694" "n * 6305039478318694 < 2 ^ 85"
    using product_range [OF n, of 6305039478318694] by simp_all
  have near: "n * 6305039478318694 - 2 ^ 31 \<le> R" "R \<le> n * 6305039478318694 + 2 ^ 31"
    unfolding R_def using roundToDouble_near [OF range] by simp_all
  have upper: "R < (k + 1) * 2 ^ 53" using near k n by simp
  have lower: "(k - 1) * 2 ^ 53 \<le> R" using near k n by simp
  have fl: "floorOfProduct n 6305039478318694 53 = R div 2 ^ 53"
    by (simp add: floorOfProduct_def R_def)
  have "k * 2 ^ 53 \<le> R \<or> R < k * 2 ^ 53" by linarith
  then have cases: "R div 2 ^ 53 = k \<or> R div 2 ^ 53 = k - 1"
  proof
    assume "k * 2 ^ 53 \<le> R"
    with upper have "R div 2 ^ 53 = k" by (intro div_between) simp_all
    then show ?thesis ..
  next
    assume "R < k * 2 ^ 53"
    with lower have "R div 2 ^ 53 = k - 1" by (intro div_between) simp_all
    then show ?thesis ..
  qed
  have exact: "R div 2 ^ 53 = k" if "N mod 10 \<noteq> 0"
  proof -
    from that have "n mod 10 \<noteq> 0" unfolding n_def by presburger
    then have "(7 * n) mod 10 \<noteq> 0" by presburger
    then have "10 * k + 1 \<le> 7 * n" unfolding k_def by presburger
    with near n have "k * 2 ^ 53 \<le> R" by simp
    with upper show ?thesis by (intro div_between) simp_all
  qed
  have kN: "nat k = 7 * N div 10" unfolding k_def n_def
    by (metis nat_int of_nat_mult of_nat_numeral zdiv_int)
  have t: "tier1Count N = nat (R div 2 ^ 53)"
    unfolding tier1Count_def n_def [symmetric] fl ..
  from cases have "7 * N div 10 - 1 \<le> tier1Count N \<and> tier1Count N \<le> 7 * N div 10"
    unfolding t using kN k(3) by (auto simp: nat_diff_distrib)
  moreover from exact have "N mod 10 \<noteq> 0 \<longrightarrow> tier1Count N = 7 * N div 10"
    unfolding t using kN by simp
  ultimately show ?thesis by blast
qed

lemma quotaOfShare_div:
  "quotaOfShare 0.7 N = 7 * N div 10"
  "quotaOfShare 0.2 N = N div 5"
  "quotaOfShare 0.1 N = N div 10"
proof -
  have "\<lfloor>0.7 * real N\<rfloor> = \<lfloor>real (7 * N) / real 10\<rfloor>" by simp
  also have "\<dots> = int (7 * N div 10)" by (rule floor_divide_of_nat_eq)
  finally show "quotaOfShare 0.7 N = 7 * N div 10" by (simp add: quotaOfShare_def)
  have "\<lfloor>0.2 * real N\<rfloor> = \<lfloor>real N / real 5\<rfloor>" by simp
  also have "\<dots> = int (N div 5)" by (rule floor_divide_of_nat_eq)
  finally show "quotaOfShare 0.2 N = N div 5" by (simp add: quotaOfShare_def)
  have "\<lfloor>0.1 * real N\<rfloor> = \<lfloor>real N / real 10\<rfloor>" by simp
  also have "\<dots> = int (N div 10)" by (rule floor_divide_of_nat_eq)
  finally show "quotaOfShare 0.1 N = N div 10" by (simp add: quotaOfShare_def)
qed

lemma quotas_agree:
  assumes "N < 2 ^ 32"
  shows "tier2Count N = quotaOfShare 0.2 N" and "tier3Count N = quotaOfShare 0.1 N"
    and "N mod 10 \<noteq> 0 \<Longrightarrow> tier1Count N = quotaOfShare 0.7 N"
    and "quotaOfShare 0.7 N - 1 \<le> tier1Count N" and "tier1Count N \<le> quotaOfShare 0.7 N"
  unfolding quotaOfShare_div
  using tier2Count_exact [OF assms] tier3Count_exact [OF assms] tier1Count_range [OF assms]
  by simp_all

lemma tier1Count_table: "list_all (\<lambda>N. tier1Count N = 7 * N div 10) [0..<90]"
  by code_simp

lemma tier1Count_below_90: "N < 90 \<Longrightarrow> tier1Count N = quotaOfShare 0.7 N"
  using tier1Count_table unfolding list_all_iff quotaOfShare_div by simp

lemma quotas_at_9: "tier1Count 9 = 6" "tier2Count 9 = 1" "tier3Count 9 = 0"
  by code_simp+





lemma tierJobs_numbered:
  "tierJobs u (map (numberedJob t) ns) = (if u = t then map (numberedJob t) ns else [])"
  by (induction ns) (simp_all add: tierJobs_def numberedJob_def sampleJob_def)

lemma tierJobs_append: "tierJobs u (xs @ ys) = tierJobs u xs @ tierJobs u ys"
  by (simp add: tierJobs_def)

lemma ninetyJobs_facts:
  "length ninetyJobs = 90"
  "length (tierJobs 1 ninetyJobs) = 63"
  "length (tierJobs 2 ninetyJobs) = 18"
  "length (tierJobs 3 ninetyJobs) = 9"
  unfolding ninetyJobs_def tierJobs_append tierJobs_numbered length_append length_map length_upt
  by simp_all

lemma ninetyJobs_dated: "\<forall>j \<in> set ninetyJobs. posted_at j \<noteq> None"
  unfolding ninetyJobs_def set_append set_map
  by (auto simp: numberedJob_def sampleJob_def)

lemma quotas_at_90:
  "tier1Count 90 = 62" "tier2Count 90 = 18" "tier3Count 90 = 9"
  by code_simp+

lemma quotaOfShare_at_90:
  "quotaOfShare 0.7 90 = 63" "quotaOfShare 0.2 90 = 18" "quotaOfShare 0.1 90 = 9"
  by (simp_all add: quotaOfShare_def)

text \<open>
  C1. Tier-mix quota at 90 listings: the input has 63 listings of tier 1, 18 of tier 2 and 9
  of tier 3, which are the floors of 0.7, 0.2 and 0.1 times 90, so every tier holds its
  quota. The double-precision product \<^verbatim>\<open>90 * 0.7\<close> is \<^verbatim>\<open>62.99999999999999\<close>, the first
  quota of the code is 62, and the mixed list and the final output hold 62 listings of
  tier 1.
\<close>

theorem tier1_quota_at_90:
  "length ninetyJobs = 90
   \<and> length (tierJobs 1 ninetyJobs) = 63 \<and> quotaOfShare 0.7 90 = 63
   \<and> length (tierJobs 2 ninetyJobs) = 18 \<and> quotaOfShare 0.2 90 = 18
   \<and> length (tierJobs 3 ninetyJobs) = 9 \<and> quotaOfShare 0.1 90 = 9
   \<and> tier1Count 90 = 62
   \<and> length (tierJobs 1 (mixTiers ninetyJobs)) = 62
   \<and> length (tierJobs 1 (mixJobsByTier now ninetyJobs)) = 62"
proof -
  have "min (62::nat) 63 = 62" by simp
  then have mixed: "length (tierJobs 1 (mixTiers ninetyJobs)) = 62"
    by (simp only: length_tierJobs_mixTiers ninetyJobs_facts quotas_at_90)
  have "length (tierJobs 1 (mixJobsByTier now ninetyJobs)) = 62"
    by (simp only: tierJobs_mixJobsByTier_valid [OF ninetyJobs_dated] mixed)
  with mixed show ?thesis
    by (simp only: ninetyJobs_facts quotaOfShare_at_90 quotas_at_90 simp_thms)
qed

lemma quotaOfShare_at_10:
  "quotaOfShare 0.7 10 = 7" "quotaOfShare 0.2 10 = 2" "quotaOfShare 0.1 10 = 1"
  by (simp_all add: quotaOfShare_def)

lemma undatedJobs_mixed:
  "length (filter (\<lambda>j. posted_at j \<noteq> None) (mixTiers undatedJobs)) = 6"
  "length undatedJobs = 10"
  "length (tierJobs 1 undatedJobs) = 10"
  "length (tierJobs 2 undatedJobs) = 0"
  "length (tierJobs 3 undatedJobs) = 0"
  "tier1Count 10 = 7" "tier2Count 10 = 2" "tier3Count 10 = 1"
  by code_simp+

lemma length_mixJobsByTier:
  "length (mixJobsByTier now jobs) = length (filter (\<lambda>j. posted_at j \<noteq> None) (mixTiers jobs))"
proof -
  have "length (mixJobsByTier now jobs) = size (mset (mixJobsByTier now jobs))"
    by (simp only: size_mset)
  also have "\<dots> = size (mset (filter (\<lambda>j. posted_at j \<noteq> None) (mixTiers jobs)))"
    by (simp only: mset_mixJobsByTier)
  finally show ?thesis by (simp only: size_mset)
qed

text \<open>
  C10. Output length: on the 90 listings above the output has 89 listings, where the sum of
  the minima of \<open>floor(share * N)\<close> and the tier sizes is 90. On ten tier-1 listings of which
  the best scored has an unparseable \<^verbatim>\<open>posted_at\<close>, the output has 6 listings, where that
  sum is 7, for the real-number quotas and for the quotas of the code alike: the undated
  listing is selected by the mix and then belongs neither to the recent nor to the older
  part.
\<close>

theorem mixJobsByTier_length_shortfall:
  "length (mixJobsByTier now ninetyJobs) = 89
   \<and> min (quotaOfShare 0.7 (length ninetyJobs)) (length (tierJobs 1 ninetyJobs))
       + min (quotaOfShare 0.2 (length ninetyJobs)) (length (tierJobs 2 ninetyJobs))
       + min (quotaOfShare 0.1 (length ninetyJobs)) (length (tierJobs 3 ninetyJobs)) = 90
   \<and> length (mixJobsByTier now undatedJobs) = 6
   \<and> min (quotaOfShare 0.7 (length undatedJobs)) (length (tierJobs 1 undatedJobs))
       + min (quotaOfShare 0.2 (length undatedJobs)) (length (tierJobs 2 undatedJobs))
       + min (quotaOfShare 0.1 (length undatedJobs)) (length (tierJobs 3 undatedJobs)) = 7
   \<and> min (tier1Count (length undatedJobs)) (length (tierJobs 1 undatedJobs))
       + min (tier2Count (length undatedJobs)) (length (tierJobs 2 undatedJobs))
       + min (tier3Count (length undatedJobs)) (length (tierJobs 3 undatedJobs)) = 7"
proof -
  have arith: "min (62::nat) 63 + min 18 18 + min 9 9 = 89"
    "min (63::nat) 63 + min 18 18 + min 9 9 = 90"
    "min (7::nat) 10 + min 2 0 + min 1 0 = 7"
    by simp_all
  have a: "length (mixJobsByTier now ninetyJobs) = 89"
    by (simp only: length_mixJobsByTier_valid [OF ninetyJobs_dated] ninetyJobs_facts
        quotas_at_90 arith)
  have b: "min (quotaOfShare 0.7 (length ninetyJobs)) (length (tierJobs 1 ninetyJobs))
       + min (quotaOfShare 0.2 (length ninetyJobs)) (length (tierJobs 2 ninetyJobs))
       + min (quotaOfShare 0.1 (length ninetyJobs)) (length (tierJobs 3 ninetyJobs)) = 90"
    by (simp only: ninetyJobs_facts quotaOfShare_at_90 arith)
  have c: "length (mixJobsByTier now undatedJobs) = 6"
    by (simp only: length_mixJobsByTier undatedJobs_mixed)
  have d: "min (quotaOfShare 0.7 (length undatedJobs)) (length (tierJobs 1 undatedJobs))
       + min (quotaOfShare 0.2 (length undatedJobs)) (length (tierJobs 2 undatedJobs))
       + min (quotaOfShare 0.1 (length undatedJobs)) (length (tierJobs 3 undatedJobs)) = 7"
    by (simp only: undatedJobs_mixed quotaOfShare_at_10 arith)
  have e: "min (tier1Count (length undatedJobs)) (length (tierJobs 1 undatedJobs))
       + min (tier2Count (length undatedJobs)) (length (tierJobs 2 undatedJobs))
       + min (tier3Count (length undatedJobs)) (length (tierJobs 3 undatedJobs)) = 7"
    by (simp only: undatedJobs_mixed arith)
  from a b c d e show ?thesis by (intro conjI)
qed

section \<open>Properties of the source clients, the aggregation and the feed\<close>

lemma pushFulfilled_concat:
  "pushFulfilled acc results = acc @ concat (map settledValue results)"
  by (induction acc results rule: pushFulfilled.induct) (simp_all add: settledValue_def)

lemma allSettled_settled: "allSettled (map Some rs) = Some rs"
  by (induction rs) simp_all

lemma allSettled_pending: "None \<in> set ps \<Longrightarrow> allSettled ps = None"
proof (induction ps)
  case Nil
  then show ?case by simp
next
  case (Cons p ps)
  then show ?case by (cases p) (auto split: option.splits)
qed

lemma take_drop_map: "take n (drop i (map f xs)) = map f (take n (drop i xs))"
  by (simp add: take_map drop_map)

lemma collectBatches_settled:
  "collectBatches (map Some rs) i acc = Some (acc @ concat (map settledValue (drop i rs)))"
proof (induction "map Some rs :: 'a list promise list" i acc rule: collectBatches.induct)
  case (1 i acc)
  show ?case
  proof (cases "i < length rs")
    case True
    have "drop (i + batchSize) rs = drop batchSize (drop i rs)"
      by (simp add: add.commute)
    then have split: "drop i rs = take batchSize (drop i rs) @ drop (i + batchSize) rs"
      by (simp only: append_take_drop_id)
    have batch: "allSettled (take batchSize (drop i (map Some rs)))
                   = Some (take batchSize (drop i rs))"
      by (simp only: take_drop_map allSettled_settled)
    have "collectBatches (map Some rs) i acc
            = collectBatches (map Some rs) (i + batchSize)
                (pushFulfilled acc (take batchSize (drop i rs)))"
      using True by (subst collectBatches.simps) (simp add: batch)
    also have "\<dots> = Some (pushFulfilled acc (take batchSize (drop i rs))
                      @ concat (map settledValue (drop (i + batchSize) rs)))"
      using True batch by (intro "1.hyps") simp_all
    also have "\<dots> = Some (acc @ concat (map settledValue (take batchSize (drop i rs)))
                      @ concat (map settledValue (drop (i + batchSize) rs)))"
      by (simp add: pushFulfilled_concat)
    also have "\<dots> = Some (acc @ concat (map settledValue (drop i rs)))"
      using arg_cong [OF split, of "\<lambda>xs. concat (map settledValue xs)"] by simp
    finally show ?thesis .
  next
    case False
    then show ?thesis by (subst collectBatches.simps) simp
  qed
qed

lemma collectBatches_pending:
  "None \<in> set (drop i ps) \<Longrightarrow> collectBatches ps i acc = None"
proof (induction ps i acc rule: collectBatches.induct)
  case (1 ps i acc)
  from "1.prems" have less: "i < length ps" by (cases "i < length ps") simp_all
  have "drop (i + batchSize) ps = drop batchSize (drop i ps)"
    by (simp add: add.commute)
  then have split: "drop i ps = take batchSize (drop i ps) @ drop (i + batchSize) ps"
    by (simp only: append_take_drop_id)
  show ?case
  proof (cases "allSettled (take batchSize (drop i ps))")
    case None
    with less show ?thesis by (subst collectBatches.simps) simp
  next
    case (Some results)
    then have "None \<notin> set (take batchSize (drop i ps))"
      using allSettled_pending by fastforce
    moreover from "1.prems" split
    have "None \<in> set (take batchSize (drop i ps)) \<union> set (drop (i + batchSize) ps)"
      by (metis set_append)
    ultimately have "None \<in> set (drop (i + batchSize) ps)" by simp
    then have "collectBatches ps (i + batchSize) (pushFulfilled acc results) = None"
      using less Some by (intro "1.IH") simp_all
    with less Some show ?thesis by (subst collectBatches.simps) simp
  qed
qed

lemma client_failures:
  "fetchGreenhouseJobs now src FetchFailed = Some []"
  "\<not> responseOk st \<Longrightarrow> fetchGreenhouseJobs now src (Response st payload) = Some []"
  "fetchGreenhouseJobs now src (Response st Unreadable) = Some []"
  "fetchWorkableJobs now wsrc FetchFailed = Some []"
  "\<not> responseOk st \<Longrightarrow> fetchWorkableJobs now wsrc (Response st wpayload) = Some []"
  "fetchWorkableJobs now wsrc (Response st Unreadable) = Some []"
  by (simp_all add: fetchGreenhouseJobs_def greenhouseTry_def fetchWorkableJobs_def workableTry_def)

lemma client_catches:
  "greenhouseTry now src outcome = Some (Inl e) \<Longrightarrow> fetchGreenhouseJobs now src outcome = Some []"
  "workableTry now wsrc woutcome = Some (Inl e) \<Longrightarrow> fetchWorkableJobs now wsrc woutcome = Some []"
  by (simp_all add: fetchGreenhouseJobs_def fetchWorkableJobs_def)

text \<open>A client fails to return exactly when an accepted response never completes its body.\<close>

lemma client_stalls:
  "fetchGreenhouseJobs now src outcome = None
     \<longleftrightarrow> (\<exists>st. responseOk st \<and> outcome = Response st Stalled)"
  "fetchWorkableJobs now wsrc woutcome = None
     \<longleftrightarrow> (\<exists>st. responseOk st \<and> woutcome = Response st Stalled)"
  by (auto simp: fetchGreenhouseJobs_def greenhouseTry_def fetchWorkableJobs_def workableTry_def
      split: fetch_outcome.splits payload.splits if_splits)

text \<open>
  When every client returns, the fetch phase yields the concatenation of the returned
  lists in source order, a failed source contributing the empty list.
\<close>

lemma fetchAllJobs_settled:
  assumes "\<And>c. fetchGreenhouseJobs now c (ghNet c) = Some (gh c)"
    and "\<And>c. fetchWorkableJobs now c (wkNet c) = Some (wk c)"
  shows "fetchAllJobs now ghNet wkNet =
     Some (concat (map gh (TIER_1_greenhouse @ TIER_2_greenhouse))
           @ concat (map wk TIER_3_workable))"
proof -
  have "allPromises now ghNet wkNet =
          map Some (map (\<lambda>c. Fulfilled (gh c)) (TIER_1_greenhouse @ TIER_2_greenhouse)
                    @ map (\<lambda>c. Fulfilled (wk c)) TIER_3_workable)"
    by (simp add: allPromises_def assms promiseOf_def)
  then show ?thesis
    unfolding fetchAllJobs_def
    by (simp only: collectBatches_settled) (simp add: settledValue_def comp_def)
qed

lemma stripe_is_queried: "stripe \<in> set TIER_1_greenhouse"
  by (simp add: stripe_def TIER_1_greenhouse_def)

lemma ok_200: "responseOk 200"
  by (simp add: responseOk_def)

text \<open>
  C7. Source-failure isolation, for a source that sends the headers of a 200 response within
  the five seconds and then never completes the body: the client never returns, neither a
  list nor an error, and with Stripe behaving so the fetch phase of the pass, which awaits
  every promise of a batch, never completes. A batch of five promises with one that never
  settles is never collected. (A request that fails before the headers, or is answered
  with status 503, makes the client return the empty list.)
\<close>

theorem stalled_body_blocks_the_pass:
  "fetchGreenhouseJobs now stripe (Response 200 Stalled) = None
   \<and> fetchWorkableJobs now revolut (Response 200 Stalled) = None
   \<and> fetchAllJobs now stalledStripe emptyWorkable = None
   \<and> collectBatches [Some (Fulfilled [jobA]), None, Some (Fulfilled [jobB]), Some Rejected,
                      Some (Fulfilled [jobC])] 0 [] = None
   \<and> fetchGreenhouseJobs now stripe FetchFailed = Some []
   \<and> fetchGreenhouseJobs now stripe (Response 503 Stalled) = Some []"
proof -
  have g: "fetchGreenhouseJobs now stripe (Response 200 Stalled) = None"
    and w: "fetchWorkableJobs now revolut (Response 200 Stalled) = None"
    using ok_200 by (simp_all add: client_stalls)
  have "stalledStripe stripe = Response 200 Stalled"
    by (simp add: stalledStripe_def stripe_def)
  with g have "promiseOf (fetchGreenhouseJobs now stripe (stalledStripe stripe)) = None"
    by (simp add: promiseOf_def)
  with stripe_is_queried
  have "None \<in> (\<lambda>c. promiseOf (fetchGreenhouseJobs now c (stalledStripe c)))
                 ` set TIER_1_greenhouse"
    by (metis (mono_tags, lifting) image_eqI)
  then have "None \<in> set (drop 0 (allPromises now stalledStripe emptyWorkable))"
    by (simp add: allPromises_def)
  then have a: "fetchAllJobs now stalledStripe emptyWorkable = None"
    unfolding fetchAllJobs_def by (rule collectBatches_pending)
  have "None \<in> set (drop 0 [Some (Fulfilled [jobA]), None, Some (Fulfilled [jobB]),
                             Some Rejected, Some (Fulfilled [jobC])])"
    by simp
  then have b: "collectBatches [Some (Fulfilled [jobA]), None, Some (Fulfilled [jobB]),
                               Some Rejected, Some (Fulfilled [jobC])] 0 [] = None"
    by (rule collectBatches_pending)
  have c: "fetchGreenhouseJobs now stripe FetchFailed = Some []"
    "fetchGreenhouseJobs now stripe (Response 503 Stalled) = Some []"
    by (simp_all add: client_failures responseOk_def)
  from g w a b c show ?thesis by (intro conjI)
qed

lemma stripHtml_markup: "stripHtml markup = ''Senior Engineer''"
  by code_simp

lemma markup_nonempty: "markup \<noteq> []" "length markup = 24"
  by (simp_all add: markup_def)

lemma snippet_greenhouseListing:
  "snippet (greenhouseListing now src job) =
     (if orElse (content job) [] \<noteq> [] then take 300 (stripHtml (orElse (content job) []))
      else [])"
  by (simp add: greenhouseListing_def Let_def)

lemma snippet_workableListing:
  "snippet (workableListing now wsrc wjob) = orElse (description wjob) []"
  by (simp add: workableListing_def Let_def)

lemma greenhouse_snippets:
  "map_option (map snippet) (fetchGreenhouseJobs now src (Response 200 (Data (Some jobs)))) =
     Some (map (\<lambda>job. if orElse (content job) [] \<noteq> []
                       then take 300 (stripHtml (orElse (content job) [])) else [])
             (take 50 jobs))"
  by (simp add: fetchGreenhouseJobs_def greenhouseTry_def responseOk_def
      snippet_greenhouseListing comp_def)

lemma workable_snippets:
  "map_option (map snippet) (fetchWorkableJobs now wsrc (Response 200 (Data (Some wjobs)))) =
     Some (map (\<lambda>job. orElse (description job) []) (take 30 wjobs))"
  by (simp add: fetchWorkableJobs_def workableTry_def responseOk_def
      snippet_workableListing comp_def)

lemma greenhouse_snippet_capped:
  "fetchGreenhouseJobs now src outcome = Some js \<Longrightarrow> j \<in> set js \<Longrightarrow> length (snippet j) \<le> 300"
  by (auto simp: fetchGreenhouseJobs_def greenhouseTry_def snippet_greenhouseListing
      split: fetch_outcome.splits payload.splits if_splits)

text \<open>
  C6. Snippet normalization on the markup \<^verbatim>\<open><p>Senior   Engineer</p>\<close> and on a plain text
  of 400 characters: the Greenhouse client yields the stripped, collapsed text and a
  snippet of 300 characters; the Workable client yields the description unchanged, markup
  and runs of spaces included, and a snippet of 400 characters.
\<close>

theorem workable_snippet_is_raw:
  "map_option (map snippet)
     (fetchGreenhouseJobs now stripe (Response 200 (Data (Some [greenhousePosting markup]))))
     = Some [''Senior Engineer'']
   \<and> map_option (map snippet)
       (fetchWorkableJobs now revolut (Response 200 (Data (Some [workablePosting markup]))))
     = Some [''<p>Senior   Engineer</p>'']
   \<and> map_option (map (\<lambda>j. length (snippet j)))
        (fetchGreenhouseJobs now stripe
           (Response 200 (Data (Some [greenhousePosting (replicate 400 CHR ''x'')]))))
     = Some [300]
   \<and> map_option (map (\<lambda>j. length (snippet j)))
        (fetchWorkableJobs now revolut
           (Response 200 (Data (Some [workablePosting (replicate 400 CHR ''x'')]))))
     = Some [400]"
proof -
  have plain: "stripHtml (replicate 400 CHR ''x'') = replicate 400 CHR ''x''"
    by code_simp
  have lengths: "map_option (map (\<lambda>j. length (snippet j))) r
                   = map_option (map length) (map_option (map snippet) r)" for r :: "JobListing list option"
    by (cases r) (simp_all add: comp_def)
  have g: "map_option (map snippet)
     (fetchGreenhouseJobs now stripe (Response 200 (Data (Some [greenhousePosting markup]))))
     = Some [''Senior Engineer'']"
    unfolding greenhouse_snippets
    by (simp add: greenhousePosting_def orElse_def markup_nonempty stripHtml_markup)
  have w: "map_option (map snippet)
       (fetchWorkableJobs now revolut (Response 200 (Data (Some [workablePosting markup]))))
     = Some [''<p>Senior   Engineer</p>'']"
    unfolding workable_snippets
    by (simp add: workablePosting_def orElse_def markup_def)
  have gl: "map_option (map (\<lambda>j. length (snippet j)))
        (fetchGreenhouseJobs now stripe
           (Response 200 (Data (Some [greenhousePosting (replicate 400 CHR ''x'')]))))
     = Some [300]"
    unfolding lengths greenhouse_snippets
    by (simp add: greenhousePosting_def orElse_def plain)
  have wl: "map_option (map (\<lambda>j. length (snippet j)))
        (fetchWorkableJobs now revolut
           (Response 200 (Data (Some [workablePosting (replicate 400 CHR ''x'')]))))
     = Some [400]"
    unfolding lengths workable_snippets
    by (simp add: workablePosting_def orElse_def)
  from g w gl wl show ?thesis by (intro conjI)
qed








end
